theory Spec2Isabelle
  imports Main "HOL-Library.Word"
begin

unbundle bit_operations_syntax

section \<open>Bytes, exceptions and Python's integer conversions\<close>

text \<open>
  A Python \<open>bytes\<close> value is a list of 8-bit words. Python integers are unbounded, so
  every number computed from bytes is an \<open>int\<close> or a \<open>nat\<close>.
\<close>

type_synonym byte = "8 word"
type_synonym bytes = "byte list"

text \<open>
  The exceptions the modelled code can raise: \<open>IndexError\<close> from \<open>res[i]\<close>,
  \<open>OverflowError\<close> from \<open>int.to_bytes\<close>, \<open>GzipError\<close> for whatever \<open>gzip.decompress\<close>
  raises on bad input, \<open>UnicodeDecodeError\<close> from \<open>str(b, "utf-8")\<close>,
  \<open>ConnectionClosed\<close> from \<open>ws.recv()\<close> on a socket that delivers nothing more,
  \<open>ValueError\<close> from \<open>resampy.resample\<close> and from the \<open>AudioSegment\<close> constructor, and
  \<open>AttributeError\<close> from \<open>audio_full.export\<close> when \<open>audio_full\<close> is still \<open>None\<close>.
\<close>

datatype error = IndexError | OverflowError | GzipError | UnicodeDecodeError | ConnectionClosed
  | ValueError | AttributeError

definition and_then :: "error + 'a \<Rightarrow> ('a \<Rightarrow> error + 'b) \<Rightarrow> error + 'b" where
  "and_then r f = (case r of Inl e \<Rightarrow> Inl e | Inr x \<Rightarrow> f x)"

text \<open>\<open>res[i]\<close> for a non-negative index: raises \<open>IndexError\<close> out of range.\<close>

definition getitem :: "bytes \<Rightarrow> nat \<Rightarrow> error + byte" where
  "getitem res i = (if i < length res then Inr (res ! i) else Inl IndexError)"

text \<open>\<open>xs[i:j]\<close> for non-negative bounds: never raises, clips to the list.\<close>

definition slice :: "bytes \<Rightarrow> nat \<Rightarrow> nat \<Rightarrow> bytes" where
  "slice xs i j = drop i (take j xs)"

text \<open>\<open>int.from_bytes(bs, "big", signed=False)\<close>; the empty slice converts to 0.\<close>

definition from_bytes_unsigned :: "bytes \<Rightarrow> int" where
  "from_bytes_unsigned bs = foldl (\<lambda>acc b. acc * 256 + uint b) 0 bs"

text \<open>
  \<open>int.from_bytes(bs, "big", signed=True)\<close>: two's complement on \<open>8 * len(bs)\<close> bits;
  the empty slice converts to 0.
\<close>

definition from_bytes_signed :: "bytes \<Rightarrow> int" where
  "from_bytes_signed bs =
     (let u = from_bytes_unsigned bs
      in if bs \<noteq> [] \<and> 2 ^ (8 * length bs - 1) \<le> u then u - 2 ^ (8 * length bs) else u)"

text \<open>\<open>n.to_bytes(4, "big")\<close>: raises \<open>OverflowError\<close> when \<open>n\<close> does not fit 32 bits.\<close>

definition to_bytes_4_big :: "int \<Rightarrow> error + bytes" where
  "to_bytes_4_big n =
     (if 0 \<le> n \<and> n < 2 ^ 32
      then Inr [word_of_int (n div 2 ^ 24), word_of_int (n div 2 ^ 16),
                word_of_int (n div 2 ^ 8), word_of_int n]
      else Inl OverflowError)"

text \<open>
  The 4-byte big-endian two's complement encoding of a sequence number, as the server
  writes it at the head of an audio payload (the inverse of the signed conversion above
  on the 32-bit range). It is used only to state properties.
\<close>

definition int32_be :: "int \<Rightarrow> bytes" where
  "int32_be s = [word_of_int (s div 2 ^ 24), word_of_int (s div 2 ^ 16),
                 word_of_int (s div 2 ^ 8), word_of_int s]"

section \<open>Library collaborators\<close>

text \<open>
  \<open>gzip\<close>, the UTF-8 decoder and \<open>resampy\<close> are libraries outside the repository. They
  are parameters of the model: \<open>gzip_compress\<close> is \<open>gzip.compress\<close>, \<open>gzip_decompress\<close> is
  \<open>gzip.decompress\<close> (\<open>None\<close> when it raises), \<open>utf8_decode\<close> is \<open>str(b, "utf-8")\<close>
  (\<open>None\<close> when it raises), and \<open>resample\<close> is
  \<open>resampy.resample(a, 24000, 16000).astype(np.int16).tobytes()\<close> (\<open>None\<close> when
  \<open>resampy.resample\<close> raises \<open>ValueError\<close>, as it does on a signal too short to
  give one output sample).
\<close>

record collab =
  gzip_compress :: "bytes \<Rightarrow> bytes"
  gzip_decompress :: "bytes \<Rightarrow> bytes option"
  utf8_decode :: "bytes \<Rightarrow> string option"
  resample :: "16 word list \<Rightarrow> bytes option"

definition decompress :: "collab \<Rightarrow> bytes \<Rightarrow> error + bytes" where
  "decompress L bs = (case gzip_decompress L bs of None \<Rightarrow> Inl GzipError | Some p \<Rightarrow> Inr p)"

definition decode_str :: "collab \<Rightarrow> bytes \<Rightarrow> error + string" where
  "decode_str L bs = (case utf8_decode L bs of None \<Rightarrow> Inl UnicodeDecodeError | Some s \<Rightarrow> Inr s)"

section \<open>The response parser\<close>

text \<open>
  Lines 159 to 167 of \<open>parse_response\<close>: the header fields read from the first four
  bytes, the header extension and the payload. The four index reads raise \<open>IndexError\<close>
  on a short buffer; the two slices never raise.
\<close>

record response_frame =
  protocol_version :: nat
  header_size :: nat
  message_type :: nat
  message_type_specific_flags :: nat
  serialization_method :: nat
  message_compression :: nat
  reserved :: nat
  header_extensions :: bytes
  payload :: bytes

definition parse_header :: "bytes \<Rightarrow> error + response_frame" where
  "parse_header res =
     and_then (getitem res 0) (\<lambda>b0.
     and_then (getitem res 0) (\<lambda>b0'.
     and_then (getitem res 1) (\<lambda>b1.
     and_then (getitem res 1) (\<lambda>b1'.
     and_then (getitem res 2) (\<lambda>b2.
     and_then (getitem res 2) (\<lambda>b2'.
     and_then (getitem res 3) (\<lambda>b3.
       Inr \<lparr> protocol_version = unat (drop_bit 4 b0),
             header_size = unat (b0' AND 0x0f),
             message_type = unat (drop_bit 4 b1),
             message_type_specific_flags = unat (b1' AND 0x0f),
             serialization_method = unat (drop_bit 4 b2),
             message_compression = unat (b2' AND 0x0f),
             reserved = unat b3,
             header_extensions = slice res 4 (unat (b0' AND 0x0f) * 4),
             payload = drop (unat (b0' AND 0x0f) * 4) res \<rparr>)))))))"

text \<open>
  What \<open>parse_response\<close> changes: the contents of the open segment file it writes to
  (the argument \<open>file\<close>) and the lines sent to the logger.
\<close>

datatype log_line =
    Error_message_code int
  | Error_message_size int
  | Error_message string

record sink =
  file_data :: bytes
  logged :: "log_line list"

text \<open>
  \<open>parse_response(res, file)\<close>: the result is the Boolean the caller binds to \<open>done\<close>.
  The frontend branch (\<open>0xc\<close>) has no return of its own and reaches the final
  \<open>return True\<close> of the function.
\<close>

definition parse_response :: "collab \<Rightarrow> bytes \<Rightarrow> sink \<Rightarrow> error + (sink \<times> bool)" where
  "parse_response L res st =
     and_then (parse_header res) (\<lambda>h.
       if message_type h = 0xb then
         (if message_type_specific_flags h = 0 then Inr (st, False)
          else
            (let sequence_number = from_bytes_signed (slice (payload h) 0 4);
                 payload_size = from_bytes_unsigned (slice (payload h) 4 8);
                 payload' = drop 8 (payload h);
                 st' = st\<lparr>file_data := file_data st @ payload'\<rparr>
             in if sequence_number < 0 then Inr (st', True) else Inr (st', False)))
       else if message_type h = 0xf then
         (let code = from_bytes_unsigned (slice (payload h) 0 4);
              msg_size = from_bytes_unsigned (slice (payload h) 4 8);
              error_msg = drop 8 (payload h)
          in and_then (if message_compression h = 1 then decompress L error_msg
                       else Inr error_msg) (\<lambda>error_msg'.
             and_then (decode_str L error_msg') (\<lambda>error_str.
               Inr (st\<lparr>logged := logged st @ [Error_message_code code, Error_message_size msg_size,
                                          Error_message error_str]\<rparr>, True))))
       else if message_type h = 0xc then
         (let msg_size = from_bytes_unsigned (slice (payload h) 0 4);
              payload' = drop 4 (payload h)
          in and_then (if message_compression h = 1 then decompress L payload'
                       else Inr payload') (\<lambda>payload''. Inr (st, True)))
       else Inr (st, True))"

section \<open>The synthesis session\<close>

text \<open>
  \<open>run_tts\<close>, lines 116 to 153. The input \<open>payload_bytes\<close> is the encoded JSON request
  document of line 116 and \<open>incoming\<close> is what successive \<open>ws.recv()\<close> calls deliver.
  The session writes into the files \<open>save_path.{idx}.pcm\<close>, named by a fresh UUID, so
  the file system is the map \<open>files\<close> from the segment index to the file's contents and
  every file starts empty. \<open>seg_list\<close> holds the indices of the paths appended to it,
  \<open>yielded\<close> the frames handed to the caller, \<open>sent\<close> the messages given to \<open>ws.send\<close>
  and \<open>merged\<close> the segments that \<open>merge_pcm_list_into_mp3\<close> has loaded and exported
  once the loop ends.
\<close>

definition default_header :: bytes where
  "default_header = [0x11, 0x10, 0x11, 0x00]"

text \<open>Lines 117 to 120: compress, then frame with the length of the compressed bytes.\<close>

definition full_client_request :: "collab \<Rightarrow> bytes \<Rightarrow> error + bytes" where
  "full_client_request L payload_bytes =
     (let payload_bytes' = gzip_compress L payload_bytes
      in and_then (to_bytes_4_big (int (length payload_bytes'))) (\<lambda>size_bytes.
           Inr (default_header @ size_bytes @ payload_bytes')))"

datatype frame = AudioRawFrame bytes nat nat

record session =
  idx :: nat
  seg_list :: "nat list"
  files :: "nat \<Rightarrow> bytes"
  yielded :: "frame list"
  session_log :: "log_line list"
  sent :: "bytes list"
  merged :: "bytes list option"

definition new_session :: session where
  "new_session = \<lparr> idx = 0, seg_list = [], files = (\<lambda>_. []), yielded = [],
                    session_log = [], sent = [], merged = None \<rparr>"

text \<open>
  \<open>np.fromfile(seg_path, dtype=np.int16)\<close>: the 16-bit samples of the file in the
  machine's (little-endian) byte order; a trailing odd byte is not an item.
\<close>

fun fromfile_int16 :: "bytes \<Rightarrow> 16 word list" where
  "fromfile_int16 (lo # hi # rest) = word_cat hi lo # fromfile_int16 rest"
| "fromfile_int16 _ = []"

text \<open>
  Lines 138 to 148, the body of \<open>if done or os.path.getsize(seg_path) > seg_size\<close>:
  the segment is closed, its path recorded, and its resampled audio yielded when it
  holds at least one sample. When \<open>resampy.resample\<close> raises, the exception leaves
  \<open>run_tts\<close> with the index already advanced and the path already recorded.
\<close>

definition close_segment :: "collab \<Rightarrow> session \<Rightarrow> (error \<times> session) + session" where
  "close_segment L s =
     (let seg_path = idx s;
          s' = s\<lparr>idx := idx s + 1, seg_list := seg_list s @ [seg_path]\<rparr>;
          audio_np = fromfile_int16 (files s' seg_path)
      in if length audio_np > 0
         then (case resample L audio_np of
                 None \<Rightarrow> Inl (ValueError, s')
               | Some resampled_audio_bytes \<Rightarrow>
                   Inr (s'\<lparr>yielded := yielded s' @ [AudioRawFrame resampled_audio_bytes 16000 1]\<rparr>))
         else Inr s')"

text \<open>
  Lines 132 to 148, one iteration after \<open>ws.recv()\<close>: the file of the current index is
  opened for appending, \<open>parse_response\<close> writes to it, and the segment is closed when
  \<open>done\<close> holds or the file has grown beyond \<open>seg_size\<close>. An exception of
  \<open>parse_response\<close> leaves the session as it was and ends it; an exception while the
  segment is closed ends it after the write.
\<close>

definition recv_step ::
  "collab \<Rightarrow> int \<Rightarrow> bytes \<Rightarrow> session \<Rightarrow> (error \<times> session) + (session \<times> bool)" where
  "recv_step L seg_size res s =
     (let seg_path = idx s
      in case parse_response L res \<lparr>file_data = files s seg_path, logged = session_log s\<rparr> of
           Inl e \<Rightarrow> Inl (e, s)
         | Inr (st, done) \<Rightarrow>
             (let s' = s\<lparr>files := (files s)(seg_path := file_data st), session_log := logged st\<rparr>
              in if done \<or> seg_size < int (length (files s' seg_path))
                 then (case close_segment L s' of
                         Inl failure \<Rightarrow> Inl failure
                       | Inr s'' \<Rightarrow> Inr (s'', done))
                 else Inr (s', done)))"

text \<open>
  \<open>load_audioseg_from_pcm\<close> and \<open>merge_pcm_list_into_mp3\<close> of \<open>utils/audio.py\<close>, lines 59
  to 83, on the contents of the segment files. \<open>AudioSegment(data, sample_width=2,
  frame_rate, channels=1)\<close> raises \<open>ValueError\<close> when the data length is not a multiple
  of \<open>sample_width * channels = 2\<close>. The loop loads the segments in order; with no
  segment at all \<open>audio_full\<close> stays \<open>None\<close> and \<open>audio_full.export\<close> raises
  \<open>AttributeError\<close>. The mixing of the loaded segments and the mp3 encoding belong to
  pydub; the model returns the loaded segments.
\<close>

definition load_audioseg_from_pcm :: "bytes \<Rightarrow> error + bytes" where
  "load_audioseg_from_pcm data =
     (if length data mod 2 \<noteq> 0 then Inl ValueError else Inr data)"

fun load_segments :: "bytes list \<Rightarrow> error + bytes list" where
  "load_segments [] = Inr []"
| "load_segments (pcm_seg # rest) =
     and_then (load_audioseg_from_pcm pcm_seg) (\<lambda>audio_seg.
     and_then (load_segments rest) (\<lambda>loaded. Inr (audio_seg # loaded)))"

definition merge_pcm_list_into_mp3 :: "bytes list \<Rightarrow> error + bytes list" where
  "merge_pcm_list_into_mp3 pcm_segs =
     and_then (load_segments pcm_segs) (\<lambda>loaded.
       if loaded = [] then Inl AttributeError else Inr loaded)"

text \<open>
  The \<open>while True\<close> loop, lines 129 to 153. \<open>Inr\<close> is the session that left the loop
  through \<open>break\<close> after the merge returned; \<open>Inl\<close> carries the exception together with
  the session as it stood, since frames yielded before the failure stay with the caller.
\<close>

fun recv_loop :: "collab \<Rightarrow> int \<Rightarrow> bytes list \<Rightarrow> session \<Rightarrow> (error \<times> session) + session" where
  "recv_loop L seg_size [] s = Inl (ConnectionClosed, s)"
| "recv_loop L seg_size (res # rest) s =
     (case recv_step L seg_size res s of
        Inl failure \<Rightarrow> Inl failure
      | Inr (s', done) \<Rightarrow>
          if done
          then (case merge_pcm_list_into_mp3 (map (files s') (seg_list s')) of
                  Inl e \<Rightarrow> Inl (e, s')
                | Inr loaded \<Rightarrow> Inr (s'\<lparr>merged := Some loaded\<rparr>))
          else recv_loop L seg_size rest s')"

definition run_tts :: "collab \<Rightarrow> int \<Rightarrow> bytes \<Rightarrow> bytes list \<Rightarrow> (error \<times> session) + session" where
  "run_tts L seg_size payload_bytes incoming =
     (case full_client_request L payload_bytes of
        Inl e \<Rightarrow> Inl (e, new_session)
      | Inr request \<Rightarrow> recv_loop L seg_size incoming (new_session\<lparr>sent := [request]\<rparr>))"

section \<open>Observations used to state the properties\<close>

text \<open>
  The audio bytes a frame contributes and the \<open>done\<close> flag it produces, read off
  \<open>parse_response\<close> run on an empty file; \<open>consumed\<close> is the prefix of the incoming
  frames the loop reads, up to and including the first frame that does not return
  \<open>False\<close>; \<open>closed_segments\<close> are the contents of the files listed in \<open>seg_list\<close>.
\<close>

definition empty_sink :: sink where
  "empty_sink = \<lparr>file_data = [], logged = []\<rparr>"

definition audio_of :: "collab \<Rightarrow> bytes \<Rightarrow> bytes" where
  "audio_of L res =
     (case parse_response L res empty_sink of Inl e \<Rightarrow> [] | Inr (st, done) \<Rightarrow> file_data st)"

definition done_of :: "collab \<Rightarrow> bytes \<Rightarrow> error + bool" where
  "done_of L res =
     (case parse_response L res empty_sink of Inl e \<Rightarrow> Inl e | Inr (st, done) \<Rightarrow> Inr done)"


definition closed_segments :: "session \<Rightarrow> bytes list" where
  "closed_segments s = map (files s) (seg_list s)"

definition audio_with_sequence :: "bytes \<Rightarrow> bool" where
  "audio_with_sequence res =
     (case parse_header res of
        Inl e \<Rightarrow> False
      | Inr h \<Rightarrow> message_type h = 0xb \<and> message_type_specific_flags h \<noteq> 0)"

section \<open>Recorded library behaviour for the concrete examples\<close>

text \<open>
  Two byte strings and their gzip streams as CPython 3.11 produces them with a zero
  timestamp. \<open>sample_lib\<close> is the libraries restricted to these points:
  \<open>gzip.decompress\<close> rejects whatever does not start with the magic bytes \<open>1f 8b\<close>,
  and outside the recorded points the sample answers with failure (or with the empty
  string for \<open>gzip.compress\<close>). The examples below evaluate it at recorded points and at
  inputs without the magic bytes only. \<open>resampy.resample\<close> from 24000 to 16000 Hz raises
  on a single sample and returns \<open>2n/3\<close> samples, rounded down, for \<open>n\<close> samples; the
  sample values are numerical output of resampy that is not reproduced here, and the
  stand-in returns silence of that length.
\<close>

definition invalid_voice :: bytes where
  "invalid_voice = [0x69, 0x6e, 0x76, 0x61, 0x6c, 0x69, 0x64, 0x20, 0x76, 0x6f, 0x69, 0x63, 0x65]"

definition invalid_voice_gz :: bytes where
  "invalid_voice_gz =
     [0x1f, 0x8b, 0x08, 0x00, 0x00, 0x00, 0x00, 0x00, 0x02, 0x03, 0xcb, 0xcc, 0x2b, 0x4b, 0xcc,
      0xc9, 0x4c, 0x51, 0x28, 0xcb, 0xcf, 0x4c, 0x4e, 0x05, 0x00, 0x1a, 0xd5, 0xbc, 0x43, 0x0d,
      0x00, 0x00, 0x00]"

definition hello :: bytes where
  "hello = [0x68, 0x65, 0x6c, 0x6c, 0x6f]"

definition hello_gz :: bytes where
  "hello_gz =
     [0x1f, 0x8b, 0x08, 0x00, 0x00, 0x00, 0x00, 0x00, 0x02, 0x03, 0xcb, 0x48, 0xcd, 0xc9, 0xc9,
      0x07, 0x00, 0x86, 0xa6, 0x10, 0x36, 0x05, 0x00, 0x00, 0x00]"

definition sample_lib :: collab where
  "sample_lib =
     \<lparr> gzip_compress = (\<lambda>p. if p = hello then hello_gz
                            else if p = invalid_voice then invalid_voice_gz else []),
       gzip_decompress = (\<lambda>bs. if take 2 bs \<noteq> [0x1f, 0x8b] then None
                              else if bs = hello_gz then Some hello
                              else if bs = invalid_voice_gz then Some invalid_voice
                              else None),
       utf8_decode = (\<lambda>bs. if bs = hello then Some ''hello''
                          else if bs = invalid_voice then Some ''invalid voice''
                          else None),
       resample = (\<lambda>audio_np. if length audio_np < 2 then None
                             else Some (replicate (2 * (2 * length audio_np div 3)) 0)) \<rparr>"

text \<open>
  An error frame with code 55 whose message is the gzip stream of \<open>invalid voice\<close>
  (compression nibble 1), and the same error with the message bytes sent as they are
  (compression nibble 0).
\<close>

definition error_frame_55 :: bytes where
  "error_frame_55 = [0x11, 0xf0, 0x11, 0x00, 0, 0, 0, 55, 0, 0, 0, 33] @ invalid_voice_gz"

definition error_frame_55_plain :: bytes where
  "error_frame_55_plain = [0x11, 0xf0, 0x10, 0x00, 0, 0, 0, 55, 0, 0, 0, 13] @ invalid_voice"

text \<open>
  Frames of a small session: an acknowledgement (flags 0), two audio frames with
  sequence numbers 1 and 2 carrying two bytes each, a last audio frame with sequence
  number \<open>-3\<close> carrying four bytes, a last frame with sequence number \<open>-1\<close> and no audio,
  and an uncompressed frontend frame with the payload \<open>{}\<close>.
\<close>

definition ack_frame :: bytes where
  "ack_frame = [0x11, 0xb0, 0x10, 0x00]"

definition audio_frame_1 :: bytes where
  "audio_frame_1 = [0x11, 0xb1, 0x10, 0x00, 0, 0, 0, 1, 0, 0, 0, 2, 0xaa, 0xbb]"

definition audio_frame_2 :: bytes where
  "audio_frame_2 = [0x11, 0xb1, 0x10, 0x00, 0, 0, 0, 2, 0, 0, 0, 2, 0xcc, 0xdd]"


definition empty_last_frame :: bytes where
  "empty_last_frame = [0x11, 0xb2, 0x10, 0x00, 0xff, 0xff, 0xff, 0xff, 0, 0, 0, 0]"

definition frontend_frame :: bytes where
  "frontend_frame = [0x11, 0xc0, 0x10, 0x00, 0, 0, 0, 2, 0x7b, 0x7d]"

section \<open>Basic facts about the header\<close>

lemma and_then_Inr [simp]: "and_then (Inr x) f = f x"
  by (simp add: and_then_def)

lemma and_then_Inl [simp]: "and_then (Inl e) f = Inl e"
  by (simp add: and_then_def)

lemma parse_header_short: "length res < 4 \<Longrightarrow> parse_header res = Inl IndexError"
  by (simp add: parse_header_def getitem_def)

lemma parse_header_long:
  "4 \<le> length res \<Longrightarrow>
   parse_header res =
     Inr \<lparr> protocol_version = unat (drop_bit 4 (res ! 0)),
           header_size = unat (res ! 0 AND 0x0f),
           message_type = unat (drop_bit 4 (res ! 1)),
           message_type_specific_flags = unat (res ! 1 AND 0x0f),
           serialization_method = unat (drop_bit 4 (res ! 2)),
           message_compression = unat (res ! 2 AND 0x0f),
           reserved = unat (res ! 3),
           header_extensions = slice res 4 (unat (res ! 0 AND 0x0f) * 4),
           payload = drop (unat (res ! 0 AND 0x0f) * 4) res \<rparr>"
  by (auto simp add: parse_header_def getitem_def)

section \<open>The integer conversions\<close>

lemma uint_byte_of_int: "uint (word_of_int k :: byte) = k mod 256"
  by (simp add: uint_word_of_int)

lemma from_bytes_unsigned_int32_be: "from_bytes_unsigned (int32_be s) = s mod 2 ^ 32"
proof -
  have a: "s mod 2 ^ 32 = 2 ^ 8 * (s div 2 ^ 8 mod 2 ^ 24) + s mod 2 ^ 8"
    using zmod_zmult2_eq [of "2 ^ 24" s "2 ^ 8"] by simp
  have b: "s div 2 ^ 8 mod 2 ^ 24 = 2 ^ 8 * (s div 2 ^ 16 mod 2 ^ 16) + s div 2 ^ 8 mod 2 ^ 8"
    using zmod_zmult2_eq [of "2 ^ 16" "s div 2 ^ 8" "2 ^ 8"] zdiv_zmult2_eq [of "2 ^ 8" s "2 ^ 8"]
    by simp
  have c: "s div 2 ^ 16 mod 2 ^ 16 = 2 ^ 8 * (s div 2 ^ 24 mod 2 ^ 8) + s div 2 ^ 16 mod 2 ^ 8"
    using zmod_zmult2_eq [of "2 ^ 8" "s div 2 ^ 16" "2 ^ 8"] zdiv_zmult2_eq [of "2 ^ 8" s "2 ^ 16"]
    by simp
  show ?thesis
    unfolding a b c by (simp add: from_bytes_unsigned_def int32_be_def uint_byte_of_int)
qed

lemma from_bytes_signed_int32_be:
  assumes "- (2 ^ 31) \<le> s" and "s < 2 ^ 31"
  shows "from_bytes_signed (int32_be s) = s"
proof -
  have l: "length (int32_be s) = 4" "int32_be s \<noteq> []"
    by (simp_all add: int32_be_def)
  have m: "s mod 2 ^ 32 = (if s < 0 then s + 2 ^ 32 else s)"
  proof (cases "s < 0")
    case True
    have "(s + 2 ^ 32) mod 2 ^ 32 = s + 2 ^ 32"
      using assms True by (intro mod_pos_pos_trivial) simp_all
    then show ?thesis using True by simp
  next
    case False
    then show ?thesis using assms by simp
  qed
  show ?thesis using assms m
    by (simp add: from_bytes_signed_def from_bytes_unsigned_int32_be l Let_def)
qed

lemma from_bytes_unsigned_to_bytes:
  "to_bytes_4_big n = Inr bs \<Longrightarrow> from_bytes_unsigned bs = n"
  using from_bytes_unsigned_int32_be [of n]
  by (auto simp add: to_bytes_4_big_def int32_be_def split: if_splits)

lemma length_to_bytes: "to_bytes_4_big n = Inr bs \<Longrightarrow> length bs = 4"
  by (auto simp add: to_bytes_4_big_def split: if_splits)

section \<open>Frames of the concrete examples\<close>

lemmas frame_eval = parse_response_def parse_header_def getitem_def slice_def
  from_bytes_signed_def from_bytes_unsigned_def empty_sink_def

lemmas sample_eval = sample_lib_def decompress_def decode_str_def
  hello_def hello_gz_def invalid_voice_def invalid_voice_gz_def

lemma int32_be_values:
  "int32_be (- 1) = [0xff, 0xff, 0xff, 0xff]"
  "int32_be 0 = [0, 0, 0, 0]"
  "int32_be 1 = [0, 0, 0, 1]"
  "int32_be (- 2147483648) = [0x80, 0, 0, 0]"
  "int32_be 2147483647 = [0x7f, 0xff, 0xff, 0xff]"
  by (simp_all add: int32_be_def)

text \<open>
  An audio-only frame with flags 1 and a one-unit header, as the server sends it:
  header, four bytes of sequence number, then the rest of the payload.
\<close>

lemma parse_header_audio_frame:
  "length seq = 4 \<Longrightarrow>
   parse_header ([0x11, 0xb1, 0x10, 0x00] @ seq @ body) =
     Inr \<lparr>protocol_version = 1, header_size = 1, message_type = 11,
          message_type_specific_flags = 1, serialization_method = 1,
          message_compression = 0, reserved = 0, header_extensions = [],
          payload = seq @ body\<rparr>"
  by (simp add: parse_header_def getitem_def slice_def)

section \<open>Audio-only frames\<close>

text \<open>
  C1. An audio-only frame (message type \<open>0xb\<close>) with a nonzero flags nibble whose
  payload starts with the 4-byte big-endian two's complement encoding of a sequence
  number \<open>s\<close>, for any \<open>s\<close> of the signed 32-bit range: \<open>parse_response\<close> appends the
  bytes after the 8-byte sub-header to the file and returns \<open>True\<close> exactly when
  \<open>s\<close> is negative.
\<close>

theorem audio_terminal_iff_negative_sequence_number:
  assumes "parse_header res = Inr h"
    and "message_type h = 0xb"
    and "message_type_specific_flags h \<noteq> 0"
    and "slice (payload h) 0 4 = int32_be s"
    and "- (2 ^ 31) \<le> s" and "s < 2 ^ 31"
  shows "parse_response L res st =
           Inr (st\<lparr>file_data := file_data st @ drop 8 (payload h)\<rparr>, s < 0)"
  using assms by (simp add: parse_response_def from_bytes_signed_int32_be Let_def)

text \<open>
  The boundary values \<open>-1\<close>, \<open>0\<close>, \<open>1\<close>, \<open>INT32_MIN = -2147483648\<close> and
  \<open>INT32_MAX = 2147483647\<close>, each in a frame that declares two bytes of audio \<open>aa bb\<close>.
\<close>

theorem audio_terminal_iff_negative_sequence_number_witness:
  "parse_response sample_lib ([0x11, 0xb1, 0x10, 0x00] @ [0xff, 0xff, 0xff, 0xff] @ [0, 0, 0, 2, 0xaa, 0xbb])
       empty_sink = Inr (\<lparr>file_data = [0xaa, 0xbb], logged = []\<rparr>, True)
   \<and> parse_response sample_lib ([0x11, 0xb1, 0x10, 0x00] @ [0, 0, 0, 0] @ [0, 0, 0, 2, 0xaa, 0xbb])
       empty_sink = Inr (\<lparr>file_data = [0xaa, 0xbb], logged = []\<rparr>, False)
   \<and> parse_response sample_lib ([0x11, 0xb1, 0x10, 0x00] @ [0, 0, 0, 1] @ [0, 0, 0, 2, 0xaa, 0xbb])
       empty_sink = Inr (\<lparr>file_data = [0xaa, 0xbb], logged = []\<rparr>, False)
   \<and> parse_response sample_lib ([0x11, 0xb1, 0x10, 0x00] @ [0x80, 0, 0, 0] @ [0, 0, 0, 2, 0xaa, 0xbb])
       empty_sink = Inr (\<lparr>file_data = [0xaa, 0xbb], logged = []\<rparr>, True)
   \<and> parse_response sample_lib ([0x11, 0xb1, 0x10, 0x00] @ [0x7f, 0xff, 0xff, 0xff] @ [0, 0, 0, 2, 0xaa, 0xbb])
       empty_sink = Inr (\<lparr>file_data = [0xaa, 0xbb], logged = []\<rparr>, False)"
  using
    audio_terminal_iff_negative_sequence_number [OF parse_header_audio_frame,
      where seq1 = "[0xff, 0xff, 0xff, 0xff]" and s = "- 1"
        and body1 = "[0, 0, 0, 2, 0xaa, 0xbb]" and L = sample_lib and st = empty_sink]
    audio_terminal_iff_negative_sequence_number [OF parse_header_audio_frame,
      where seq1 = "[0, 0, 0, 0]" and s = 0
        and body1 = "[0, 0, 0, 2, 0xaa, 0xbb]" and L = sample_lib and st = empty_sink]
    audio_terminal_iff_negative_sequence_number [OF parse_header_audio_frame,
      where seq1 = "[0, 0, 0, 1]" and s = 1
        and body1 = "[0, 0, 0, 2, 0xaa, 0xbb]" and L = sample_lib and st = empty_sink]
    audio_terminal_iff_negative_sequence_number [OF parse_header_audio_frame,
      where seq1 = "[0x80, 0, 0, 0]" and s = "- 2147483648"
        and body1 = "[0, 0, 0, 2, 0xaa, 0xbb]" and L = sample_lib and st = empty_sink]
    audio_terminal_iff_negative_sequence_number [OF parse_header_audio_frame,
      where seq1 = "[0x7f, 0xff, 0xff, 0xff]" and s = 2147483647
        and body1 = "[0, 0, 0, 2, 0xaa, 0xbb]" and L = sample_lib and st = empty_sink]
  by (simp add: int32_be_values slice_def empty_sink_def)

text \<open>
  C10. For an audio-only frame with a nonzero flags nibble and any payload, whatever its
  length and whatever size it declares, \<open>parse_response\<close> does not raise: the sequence
  number is the signed conversion of the slice \<open>payload[:4]\<close>, the bytes written are
  \<open>payload[8:]\<close>, and the declared size takes no part in the result. When the payload is
  shorter than 8 bytes nothing is written and the frame is not terminal whenever the
  converted prefix is non-negative; the empty slice converts to 0, so an empty payload
  is not terminal.
\<close>

theorem short_audio_payload_tolerated:
  assumes "parse_header res = Inr h"
    and "message_type h = 0xb"
    and "message_type_specific_flags h \<noteq> 0"
  shows "parse_response L res st =
           Inr (st\<lparr>file_data := file_data st @ drop 8 (payload h)\<rparr>,
                from_bytes_signed (slice (payload h) 0 4) < 0)
         \<and> (length (payload h) < 8 \<longrightarrow>
              parse_response L res st = Inr (st, from_bytes_signed (slice (payload h) 0 4) < 0))
         \<and> (length (payload h) < 8 \<longrightarrow> 0 \<le> from_bytes_signed (slice (payload h) 0 4) \<longrightarrow>
              parse_response L res st = Inr (st, False))
         \<and> (payload h = [] \<longrightarrow> parse_response L res st = Inr (st, False))
         \<and> from_bytes_signed [] = 0 \<and> from_bytes_unsigned [] = 0"
proof -
  have general: "parse_response L res st =
      Inr (st\<lparr>file_data := file_data st @ drop 8 (payload h)\<rparr>,
           from_bytes_signed (slice (payload h) 0 4) < 0)"
    using assms by (simp add: parse_response_def Let_def)
  have empty: "from_bytes_signed [] = 0" "from_bytes_unsigned [] = 0"
    by (simp_all add: from_bytes_signed_def from_bytes_unsigned_def)
  have short: "length (payload h) < 8 \<Longrightarrow> st\<lparr>file_data := file_data st @ drop 8 (payload h)\<rparr> = st"
    by simp
  show ?thesis
    using general empty short by (auto simp add: slice_def)
qed

text \<open>
  A frame whose payload is the two bytes \<open>00 05\<close> and a frame with no payload at all.
\<close>

theorem short_audio_payload_tolerated_witness:
  "parse_response sample_lib [0x11, 0xb1, 0x10, 0x00, 0x00, 0x05] empty_sink = Inr (empty_sink, False)
   \<and> parse_response sample_lib [0x11, 0xb1, 0x10, 0x00] empty_sink = Inr (empty_sink, False)"
proof -
  have h1: "parse_header [0x11, 0xb1, 0x10, 0x00, 0x00, 0x05] =
      Inr \<lparr>protocol_version = 1, header_size = 1, message_type = 11,
           message_type_specific_flags = 1, serialization_method = 1,
           message_compression = 0, reserved = 0, header_extensions = [],
           payload = [0x00, 0x05]\<rparr>"
    by (simp add: parse_header_def getitem_def slice_def)
  have h2: "parse_header [0x11, 0xb1, 0x10, 0x00] =
      Inr \<lparr>protocol_version = 1, header_size = 1, message_type = 11,
           message_type_specific_flags = 1, serialization_method = 1,
           message_compression = 0, reserved = 0, header_extensions = [],
           payload = []\<rparr>"
    by (simp add: parse_header_def getitem_def slice_def)
  show ?thesis
    using short_audio_payload_tolerated [OF h1, of sample_lib empty_sink]
      short_audio_payload_tolerated [OF h2, of sample_lib empty_sink]
    by (simp add: frame_eval)
qed

section \<open>Malformed input\<close>

text \<open>
  C5, as the code has it. A buffer shorter than 4 bytes makes the header reads fail
  with \<open>IndexError\<close>, so a 3-byte response raises. A buffer of at least 4 bytes always
  yields a header; a declared header size whose fourfold exceeds the buffer length is
  not an error: the slices clip, the payload is empty and the header extension is
  whatever follows byte 3.
\<close>

theorem header_fails_only_when_short:
  "(length res < 4 \<longrightarrow> parse_header res = Inl IndexError \<and> parse_response L res st = Inl IndexError)
   \<and> (4 \<le> length res \<longrightarrow>
        (\<exists>h. parse_header res = Inr h \<and> header_size h = unat (res ! 0 AND 0x0f)
           \<and> (length res < header_size h * 4 \<longrightarrow>
                 payload h = [] \<and> header_extensions h = drop 4 res)))"
proof (cases "length res < 4")
  case True
  then show ?thesis by (simp add: parse_header_short parse_response_def)
next
  case False
  then have "4 \<le> length res" by simp
  then show ?thesis by (simp add: parse_header_long slice_def)
qed

theorem header_fails_only_when_short_witness:
  "parse_response sample_lib [0x11, 0xb1, 0x10] empty_sink = Inl IndexError
   \<and> (\<exists>h. parse_header [0x1f, 0xb0, 0x10, 0x00] = Inr h \<and> header_size h = 15 \<and> payload h = [])"
  using header_fails_only_when_short [of "[0x11, 0xb1, 0x10]" sample_lib empty_sink]
    header_fails_only_when_short [of "[0x1f, 0xb0, 0x10, 0x00]" sample_lib empty_sink]
  by auto

text \<open>
  The claim as stated fails on the 4-byte buffer \<open>1f b0 10 00\<close>: it declares a header of
  15 units, 60 bytes, and is parsed without any failure as an acknowledgement.
\<close>

theorem oversized_header_size_counterexample:
  "length [0x1f, 0xb0, 0x10, 0x00 :: byte] < unat (([0x1f, 0xb0, 0x10, 0x00] :: bytes) ! 0 AND 0x0f) * 4
   \<and> parse_header [0x1f, 0xb0, 0x10, 0x00] =
        Inr \<lparr>protocol_version = 1, header_size = 15, message_type = 11,
             message_type_specific_flags = 0, serialization_method = 1,
             message_compression = 0, reserved = 0, header_extensions = [], payload = []\<rparr>
   \<and> parse_response sample_lib [0x1f, 0xb0, 0x10, 0x00] empty_sink = Inr (empty_sink, False)"
  by (simp add: frame_eval)

section \<open>Unknown message types\<close>

text \<open>
  C8, as the code has it. A frame whose message type is none of \<open>0xb\<close>, \<open>0xc\<close>, \<open>0xf\<close>
  raises nothing: \<open>parse_response\<close> returns \<open>True\<close>, so the frame is terminal, and
  neither the file nor the log changes.
\<close>

theorem unknown_message_type_returns_done:
  assumes "parse_header res = Inr h"
    and "message_type h \<noteq> 0xb" and "message_type h \<noteq> 0xc" and "message_type h \<noteq> 0xf"
  shows "parse_response L res st = Inr (st, True)"
  using assms by (simp add: parse_response_def)

theorem unknown_message_type_returns_done_witness:
  "parse_response sample_lib [0x11, 0x20, 0x10, 0x00, 0x01] empty_sink = Inr (empty_sink, True)"
proof -
  have h: "parse_header [0x11, 0x20, 0x10, 0x00, 0x01] =
      Inr \<lparr>protocol_version = 1, header_size = 1, message_type = 2,
           message_type_specific_flags = 0, serialization_method = 1,
           message_compression = 0, reserved = 0, header_extensions = [], payload = [0x01]\<rparr>"
    by (simp add: parse_header_def getitem_def slice_def)
  show ?thesis
    using unknown_message_type_returns_done [OF h, of sample_lib empty_sink] by simp
qed

text \<open>
  The claim as stated fails on the frame \<open>11 10 11 00\<close> of message type 1: the call
  returns a value and raises no exception.
\<close>

theorem unknown_message_type_counterexample:
  "parse_header [0x11, 0x10, 0x11, 0x00] =
      Inr \<lparr>protocol_version = 1, header_size = 1, message_type = 1,
           message_type_specific_flags = 0, serialization_method = 1,
           message_compression = 1, reserved = 0, header_extensions = [], payload = []\<rparr>
   \<and> parse_response sample_lib [0x11, 0x10, 0x11, 0x00] empty_sink = Inr (empty_sink, True)
   \<and> \<not> isl (parse_response sample_lib [0x11, 0x10, 0x11, 0x00] empty_sink)"
  by (simp add: frame_eval)

section \<open>Error frames\<close>

text \<open>
  C2, as the code has it. For an error frame (message type \<open>0xf\<close>) whose message bytes
  decompress, when the compression nibble is 1, and decode as UTF-8, \<open>parse_response\<close>
  raises nothing: it logs the 4-byte big-endian unsigned code, the declared size and the
  message text, and returns \<open>True\<close>. The message bytes go through \<open>gzip.decompress\<close>
  exactly when the compression nibble equals 1.
\<close>

theorem error_frame_logged_and_done:
  assumes "parse_header res = Inr h"
    and "message_type h = 0xf"
    and "(if message_compression h = 1 then gzip_decompress L (drop 8 (payload h))
          else Some (drop 8 (payload h))) = Some error_msg"
    and "utf8_decode L error_msg = Some error_str"
  shows "parse_response L res st =
           Inr (st\<lparr>logged := logged st @
                   [Error_message_code (from_bytes_unsigned (slice (payload h) 0 4)),
                    Error_message_size (from_bytes_unsigned (slice (payload h) 4 8)),
                    Error_message error_str]\<rparr>, True)"
  using assms
  by (auto simp add: parse_response_def Let_def decompress_def decode_str_def split: if_splits)

lemma parse_header_error_frame_55:
  "parse_header error_frame_55 =
      Inr \<lparr>protocol_version = 1, header_size = 1, message_type = 15,
           message_type_specific_flags = 0, serialization_method = 1,
           message_compression = 1, reserved = 0, header_extensions = [],
           payload = [0, 0, 0, 55, 0, 0, 0, 33] @ invalid_voice_gz\<rparr>"
  by (simp add: error_frame_55_def parse_header_def getitem_def slice_def)

lemma parse_header_error_frame_55_plain:
  "parse_header error_frame_55_plain =
      Inr \<lparr>protocol_version = 1, header_size = 1, message_type = 15,
           message_type_specific_flags = 0, serialization_method = 1,
           message_compression = 0, reserved = 0, header_extensions = [],
           payload = [0, 0, 0, 55, 0, 0, 0, 13] @ invalid_voice\<rparr>"
  by (simp add: error_frame_55_plain_def parse_header_def getitem_def slice_def)

theorem error_frame_logged_and_done_witness:
  "parse_response sample_lib error_frame_55 empty_sink =
     Inr (\<lparr>file_data = [], logged = [Error_message_code 55, Error_message_size 33,
                                       Error_message ''invalid voice'']\<rparr>, True)
   \<and> parse_response sample_lib error_frame_55_plain empty_sink =
     Inr (\<lparr>file_data = [], logged = [Error_message_code 55, Error_message_size 13,
                                       Error_message ''invalid voice'']\<rparr>, True)"
  using error_frame_logged_and_done [OF parse_header_error_frame_55,
      where L = sample_lib and error_msg = invalid_voice and error_str = "''invalid voice''"
        and st = empty_sink]
    error_frame_logged_and_done [OF parse_header_error_frame_55_plain,
      where L = sample_lib and error_msg = invalid_voice and error_str = "''invalid voice''"
        and st = empty_sink]
  by (simp add: slice_def from_bytes_unsigned_def empty_sink_def sample_eval)

text \<open>
  The claim as stated fails on the error frame with code 55 and the gzip stream of
  \<open>invalid voice\<close>: the call returns \<open>True\<close> with the three log lines and raises no
  exception.
\<close>

theorem error_frame_55_counterexample:
  "\<not> isl (parse_response sample_lib error_frame_55 empty_sink)
   \<and> snd (projr (parse_response sample_lib error_frame_55 empty_sink)) = True"
  by (simp add: error_frame_55_def frame_eval sample_eval)

section \<open>The receive loop, one step at a time\<close>

lemma parse_response_sink:
  "parse_response L res st =
     (case parse_response L res empty_sink of
        Inl e \<Rightarrow> Inl e
      | Inr (st', d) \<Rightarrow>
          Inr (\<lparr>file_data = file_data st @ file_data st', logged = logged st @ logged st'\<rparr>, d))"
proof (cases "parse_header res")
  case (Inl e)
  then show ?thesis by (simp add: parse_response_def)
next
  case (Inr h)
  then show ?thesis
    by (auto simp add: parse_response_def empty_sink_def Let_def decompress_def decode_str_def
        split: option.splits)
qed

lemma audio_of_only_with_sequence:
  "\<not> audio_with_sequence res \<Longrightarrow> audio_of L res = []"
  by (cases "parse_header res")
    (auto simp add: audio_of_def audio_with_sequence_def parse_response_def empty_sink_def
      Let_def decompress_def decode_str_def split: option.splits)

lemma close_segment_Inr:
  assumes "close_segment L s = Inr s'"
  shows "idx s' = idx s + 1" and "seg_list s' = seg_list s @ [idx s]"
    and "files s' = files s" and "sent s' = sent s"
  using assms by (auto simp add: close_segment_def Let_def split: if_splits option.splits)

lemma close_segment_no_sample:
  "fromfile_int16 (files s (idx s)) = [] \<Longrightarrow>
   close_segment L s = Inr (s\<lparr>idx := idx s + 1, seg_list := seg_list s @ [idx s]\<rparr>)"
  by (simp add: close_segment_def Let_def)

lemma close_segment_resampled:
  "fromfile_int16 (files s (idx s)) \<noteq> [] \<Longrightarrow>
   resample L (fromfile_int16 (files s (idx s))) = Some resampled \<Longrightarrow>
   close_segment L s =
     Inr (s\<lparr>idx := idx s + 1, seg_list := seg_list s @ [idx s],
            yielded := yielded s @ [AudioRawFrame resampled 16000 1]\<rparr>)"
  by (simp add: close_segment_def Let_def)

lemma close_segment_refused:
  "fromfile_int16 (files s (idx s)) \<noteq> [] \<Longrightarrow>
   resample L (fromfile_int16 (files s (idx s))) = None \<Longrightarrow>
   close_segment L s = Inl (ValueError, s\<lparr>idx := idx s + 1, seg_list := seg_list s @ [idx s]\<rparr>)"
  by (simp add: close_segment_def Let_def)


lemma load_segments_even:
  "\<forall>seg \<in> set segs. even (length seg) \<Longrightarrow> load_segments segs = Inr segs"
  by (induction segs) (auto simp add: load_audioseg_from_pcm_def)


lemma merge_even:
  "segs \<noteq> [] \<Longrightarrow> \<forall>seg \<in> set segs. even (length seg) \<Longrightarrow>
   merge_pcm_list_into_mp3 segs = Inr segs"
  by (simp add: merge_pcm_list_into_mp3_def load_segments_even)


lemma recv_step_success:
  assumes "done_of L res = Inr d"
  shows "\<exists>lg. recv_step L H res s =
           (let s' = s\<lparr>files := (files s)(idx s := files s (idx s) @ audio_of L res),
                        session_log := lg\<rparr>
            in if d \<or> H < int (length (files s (idx s) @ audio_of L res))
               then (case close_segment L s' of
                       Inl failure \<Rightarrow> Inl failure
                     | Inr s'' \<Rightarrow> Inr (s'', d))
               else Inr (s', d))"
proof -
  obtain st' where p: "parse_response L res empty_sink = Inr (st', d)"
    using assms by (auto simp add: done_of_def split: sum.splits)
  have a: "audio_of L res = file_data st'"
    by (simp add: audio_of_def p)
  have pr: "parse_response L res \<lparr>file_data = files s (idx s), logged = session_log s\<rparr> =
      Inr (\<lparr>file_data = files s (idx s) @ file_data st',
             logged = session_log s @ logged st'\<rparr>, d)"
    by (subst parse_response_sink) (simp add: p)
  show ?thesis
    by (rule exI [of _ "session_log s @ logged st'"]) (simp add: recv_step_def pr a Let_def)
qed




section \<open>Frontend frames\<close>

text \<open>
  C3, as the code has it. For a frontend frame (message type \<open>0xc\<close>) whose payload
  after the 4-byte size decompresses when the compression nibble is 1,
  \<open>parse_response\<close> writes no audio and logs nothing, the payload is discarded, and the
  result is \<open>True\<close>: the frame is terminal. The receive loop reads no further frame:
  its outcome is that of closing the current segment and then merging, whatever frames
  would follow. When the open segment holds no sample, or the resampler accepts its
  samples, and every recorded segment and the open one have an even number of bytes, the
  merge is called and the session completes; when the resampler refuses the open
  segment's samples the session ends with \<open>ValueError\<close> before the merge is called.
\<close>

theorem frontend_frame_is_done:
  assumes "parse_header res = Inr h"
    and "message_type h = 0xc"
    and "message_compression h = 1 \<longrightarrow> gzip_decompress L (drop 4 (payload h)) \<noteq> None"
  shows "parse_response L res st = Inr (st, True)
         \<and> recv_loop L seg_size (res # rest) s =
             (case close_segment L s of
                Inl failure \<Rightarrow> Inl failure
              | Inr s' \<Rightarrow>
                  (case merge_pcm_list_into_mp3 (closed_segments s') of
                     Inl e \<Rightarrow> Inl (e, s')
                   | Inr loaded \<Rightarrow> Inr (s'\<lparr>merged := Some loaded\<rparr>)))
         \<and> ((fromfile_int16 (files s (idx s)) = []
               \<or> resample L (fromfile_int16 (files s (idx s))) \<noteq> None) \<longrightarrow>
             (\<forall>i \<in> set (seg_list s @ [idx s]). even (length (files s i))) \<longrightarrow>
               (\<exists>s'. close_segment L s = Inr s'
                  \<and> recv_loop L seg_size (res # rest) s =
                      Inr (s'\<lparr>merged := Some (closed_segments s')\<rparr>)))
         \<and> (fromfile_int16 (files s (idx s)) \<noteq> []
               \<and> resample L (fromfile_int16 (files s (idx s))) = None \<longrightarrow>
             recv_loop L seg_size (res # rest) s =
               Inl (ValueError, s\<lparr>idx := idx s + 1, seg_list := seg_list s @ [idx s]\<rparr>))"
proof -
  have p: "parse_response L res st = Inr (st, True)" for st
    using assms by (auto simp add: parse_response_def Let_def decompress_def split: option.splits)
  have loop: "recv_loop L seg_size (res # rest) s =
             (case close_segment L s of
                Inl failure \<Rightarrow> Inl failure
              | Inr s' \<Rightarrow>
                  (case merge_pcm_list_into_mp3 (closed_segments s') of
                     Inl e \<Rightarrow> Inl (e, s')
                   | Inr loaded \<Rightarrow> Inr (s'\<lparr>merged := Some loaded\<rparr>)))"
    by (simp add: p recv_step_def closed_segments_def split: sum.splits)
  have good: "\<exists>s'. close_segment L s = Inr s'
                  \<and> recv_loop L seg_size (res # rest) s =
                      Inr (s'\<lparr>merged := Some (closed_segments s')\<rparr>)"
    if ok: "fromfile_int16 (files s (idx s)) = []
            \<or> resample L (fromfile_int16 (files s (idx s))) \<noteq> None"
      and ev: "\<forall>i \<in> set (seg_list s @ [idx s]). even (length (files s i))"
  proof -
    obtain s' where c: "close_segment L s = Inr s'"
      using ok close_segment_no_sample [of s L] close_segment_resampled [of s L]
      by (cases "fromfile_int16 (files s (idx s)) = []") auto
    have segs: "closed_segments s' = map (files s) (seg_list s @ [idx s])"
      using close_segment_Inr(2,3) [OF c] by (simp add: closed_segments_def)
    have "merge_pcm_list_into_mp3 (closed_segments s') = Inr (closed_segments s')"
      unfolding segs using ev by (intro merge_even) simp_all
    then show ?thesis
      using c loop by simp
  qed
  have bad: "recv_loop L seg_size (res # rest) s =
               Inl (ValueError, s\<lparr>idx := idx s + 1, seg_list := seg_list s @ [idx s]\<rparr>)"
    if "fromfile_int16 (files s (idx s)) \<noteq> []
        \<and> resample L (fromfile_int16 (files s (idx s))) = None"
    using that loop close_segment_refused [of s L] by simp
  show ?thesis
    using p loop good bad by blast
qed

lemma parse_header_frontend_frame:
  "parse_header frontend_frame =
      Inr \<lparr>protocol_version = 1, header_size = 1, message_type = 12,
           message_type_specific_flags = 0, serialization_method = 1,
           message_compression = 0, reserved = 0, header_extensions = [],
           payload = [0, 0, 0, 2, 0x7b, 0x7d]\<rparr>"
  by (simp add: frontend_frame_def parse_header_def getitem_def slice_def)

text \<open>
  On a fresh session the frontend frame completes the session with one empty segment
  and the audio frame behind it is not read. With a threshold of 100 bytes, after one
  audio frame of two bytes, which stays in the open segment, the frontend frame ends
  the session with \<open>ValueError\<close>: the open segment holds a single sample.
\<close>

theorem frontend_frame_is_done_witness:
  "parse_response sample_lib frontend_frame empty_sink = Inr (empty_sink, True)
   \<and> recv_loop sample_lib 0 [frontend_frame, audio_frame_1] new_session =
       Inr (new_session\<lparr>idx := 1, seg_list := [0], merged := Some [[]]\<rparr>)
   \<and> recv_loop sample_lib 100 [frontend_frame, audio_frame_2]
         (new_session\<lparr>files := (\<lambda>i. [])(0 := [0xaa, 0xbb])\<rparr>) =
       Inl (ValueError, new_session\<lparr>files := (\<lambda>i. [])(0 := [0xaa, 0xbb]), idx := 1, seg_list := [0]\<rparr>)"
proof -
  have a: "message_type \<lparr>protocol_version = 1, header_size = 1, message_type = 12,
           message_type_specific_flags = 0, serialization_method = 1,
           message_compression = 0, reserved = 0, header_extensions = [],
           payload = [0, 0, 0, 2, 0x7b, 0x7d]\<rparr> = 0xc"
    by simp
  have b: "message_compression \<lparr>protocol_version = 1, header_size = 1, message_type = 12,
           message_type_specific_flags = 0, serialization_method = 1,
           message_compression = 0, reserved = 0, header_extensions = [],
           payload = [0, 0, 0, 2, 0x7b, 0x7d]\<rparr> = 1 \<longrightarrow>
         gzip_decompress sample_lib (drop 4 (payload \<lparr>protocol_version = 1, header_size = 1,
           message_type = 12, message_type_specific_flags = 0, serialization_method = 1,
           message_compression = 0, reserved = 0, header_extensions = [],
           payload = [0, 0, 0, 2, 0x7b, 0x7d]\<rparr>)) \<noteq> None"
    by simp
  have fresh: "recv_loop sample_lib 0 [frontend_frame, audio_frame_1] new_session =
       Inr (new_session\<lparr>idx := 1, seg_list := [0], merged := Some [[]]\<rparr>)"
    using frontend_frame_is_done [OF parse_header_frontend_frame a b,
        of empty_sink 0 "[audio_frame_1]" new_session]
    by (simp add: close_segment_def closed_segments_def new_session_def Let_def
        merge_pcm_list_into_mp3_def load_audioseg_from_pcm_def)
  define S where "S = new_session\<lparr>files := (\<lambda>i. [])(0 := [0xaa, 0xbb])\<rparr>"
  have refused: "fromfile_int16 (files S (idx S)) \<noteq> []
      \<and> resample sample_lib (fromfile_int16 (files S (idx S))) = None"
    by (simp add: S_def new_session_def sample_lib_def)
  have r: "recv_loop sample_lib 100 [frontend_frame, audio_frame_2] S =
      Inl (ValueError, S\<lparr>idx := idx S + 1, seg_list := seg_list S @ [idx S]\<rparr>)"
    using frontend_frame_is_done [OF parse_header_frontend_frame a b,
        of empty_sink 100 "[audio_frame_2]" S] refused
    by blast
  have e: "S\<lparr>idx := idx S + 1, seg_list := seg_list S @ [idx S]\<rparr> = S\<lparr>idx := 1, seg_list := [0]\<rparr>"
    by (simp add: S_def new_session_def)
  have one_sample: "recv_loop sample_lib 100 [frontend_frame, audio_frame_2] S =
       Inl (ValueError, S\<lparr>idx := 1, seg_list := [0]\<rparr>)"
    using r by (simp only: e)
  have parsed: "parse_response sample_lib frontend_frame empty_sink = Inr (empty_sink, True)"
    using frontend_frame_is_done [OF parse_header_frontend_frame a b,
        of empty_sink 0 "[audio_frame_1]" new_session]
    by blast
  show ?thesis
    using parsed fresh one_sample unfolding S_def by blast
qed

text \<open>
  The same end from a fresh session: with a threshold of 100 bytes the audio frame of two
  bytes leaves one sample in the open segment, and the frontend frame that follows ends
  the session with \<open>ValueError\<close>; the merge is not called.
\<close>

lemma frontend_after_one_sample:
  "recv_loop sample_lib 100 [audio_frame_1, frontend_frame] new_session =
     Inl (ValueError,
          new_session\<lparr>files := (\<lambda>i. [])(0 := [0xaa, 0xbb]), idx := 1, seg_list := [0]\<rparr>)"
  by (simp add: audio_frame_1_def frontend_frame_def recv_step_def frame_eval close_segment_def
      new_session_def Let_def sample_lib_def)

text \<open>
  The claim as stated fails on a session that receives the frontend frame and then an
  audio frame with two bytes: the frontend frame returns \<open>True\<close>, the loop ends with
  one empty segment, and the audio frame is never read.
\<close>

theorem frontend_frame_terminal_counterexample:
  "parse_response sample_lib frontend_frame empty_sink = Inr (empty_sink, True)
   \<and> audio_of sample_lib audio_frame_1 = [0xaa, 0xbb]
   \<and> closed_segments (projr (recv_loop sample_lib 0 [frontend_frame, audio_frame_1] new_session)) = [[]]
   \<and> merged (projr (recv_loop sample_lib 0 [frontend_frame, audio_frame_1] new_session)) = Some [[]]"
  by (simp add: frontend_frame_def audio_frame_1_def frame_eval audio_of_def recv_step_def
      close_segment_def closed_segments_def new_session_def Let_def
      merge_pcm_list_into_mp3_def load_audioseg_from_pcm_def)

section \<open>Segment assembly\<close>







section \<open>The request frame\<close>

lemma full_client_request_frame:
  assumes "length (gzip_compress L payload_bytes) < 2 ^ 32"
  shows "\<exists>size_bytes.
           full_client_request L payload_bytes =
             Inr (0x11 # 0x10 # 0x11 # 0x00 # size_bytes @ gzip_compress L payload_bytes)
           \<and> length size_bytes = 4
           \<and> from_bytes_unsigned size_bytes = int (length (gzip_compress L payload_bytes))"
proof -
  let ?n = "int (length (gzip_compress L payload_bytes))"
  from assms have "0 \<le> ?n \<and> ?n < 2 ^ 32" by simp
  then obtain bs where bs: "to_bytes_4_big ?n = Inr bs"
    by (simp add: to_bytes_4_big_def)
  show ?thesis
    using bs from_bytes_unsigned_to_bytes [OF bs] length_to_bytes [OF bs]
    by (simp add: full_client_request_def default_header_def Let_def)
qed

lemma parse_header_request:
  "parse_header (0x11 # 0x10 # 0x11 # 0x00 # rest) =
     Inr \<lparr>protocol_version = 1, header_size = 1, message_type = 1,
          message_type_specific_flags = 0, serialization_method = 1,
          message_compression = 1, reserved = 0, header_extensions = [], payload = rest\<rparr>"
  by (simp add: parse_header_def getitem_def slice_def)

text \<open>
  C6. For every request payload whose compressed form fits the 4-byte length field,
  the request frame is the fixed header \<open>11 10 11 00\<close> (version 1, header size 1,
  message type 1, flags 0, serialization 1, compression 1, reserved 0), then four bytes
  whose big-endian value is the length of the compressed payload, then the compressed
  payload; its length is 8 plus the compressed length.
\<close>

theorem full_client_request_layout:
  assumes "length (gzip_compress L payload_bytes) < 2 ^ 32"
  shows "\<exists>size_bytes.
           full_client_request L payload_bytes =
             Inr ([0x11, 0x10, 0x11, 0x00] @ size_bytes @ gzip_compress L payload_bytes)
           \<and> length size_bytes = 4
           \<and> from_bytes_unsigned size_bytes = int (length (gzip_compress L payload_bytes))
           \<and> length ([0x11, 0x10, 0x11, 0x00 :: byte] @ size_bytes @ gzip_compress L payload_bytes)
               = 8 + length (gzip_compress L payload_bytes)
           \<and> parse_header ([0x11, 0x10, 0x11, 0x00] @ size_bytes @ gzip_compress L payload_bytes) =
               Inr \<lparr>protocol_version = 1, header_size = 1, message_type = 1,
                    message_type_specific_flags = 0, serialization_method = 1,
                    message_compression = 1, reserved = 0, header_extensions = [],
                    payload = size_bytes @ gzip_compress L payload_bytes\<rparr>"
  using full_client_request_frame [OF assms] by (auto simp add: parse_header_request)

theorem full_client_request_layout_witness:
  "full_client_request sample_lib hello = Inr ([0x11, 0x10, 0x11, 0x00] @ [0, 0, 0, 25] @ hello_gz)
   \<and> length ([0x11, 0x10, 0x11, 0x00 :: byte] @ [0, 0, 0, 25] @ hello_gz) = 8 + length hello_gz"
proof -
  have a: "length (gzip_compress sample_lib hello) < 2 ^ 32"
    by (simp add: sample_eval)
  have c: "gzip_compress sample_lib hello = hello_gz"
    by (simp add: sample_lib_def)
  obtain size_bytes where sb:
      "full_client_request sample_lib hello = Inr ([0x11, 0x10, 0x11, 0x00] @ size_bytes @ hello_gz)"
      "length size_bytes = 4"
    using full_client_request_layout [OF a] c by auto
  have "full_client_request sample_lib hello = Inr ([0x11, 0x10, 0x11, 0x00] @ [0, 0, 0, 25] @ hello_gz)"
    by (simp add: full_client_request_def default_header_def to_bytes_4_big_def Let_def sample_eval)
  then show ?thesis using sb by simp
qed

text \<open>
  C7, as the code has it. The payload of the parsed request frame is the 4-byte length
  followed by the compressed bytes; once these four bytes are dropped, as the frontend
  branch does with \<open>payload[4:]\<close>, decompressing gives back the original payload
  (for a compressor and decompressor that are inverse on this payload).
\<close>

theorem round_trip_after_length_prefix:
  assumes "length (gzip_compress L payload_bytes) < 2 ^ 32"
    and "gzip_decompress L (gzip_compress L payload_bytes) = Some payload_bytes"
  shows "\<exists>request h.
           full_client_request L payload_bytes = Inr request
           \<and> parse_header request = Inr h
           \<and> message_compression h = 1
           \<and> from_bytes_unsigned (slice (payload h) 0 4) = int (length (gzip_compress L payload_bytes))
           \<and> drop 4 (payload h) = gzip_compress L payload_bytes
           \<and> gzip_decompress L (drop 4 (payload h)) = Some payload_bytes"
proof -
  obtain size_bytes where sb:
      "full_client_request L payload_bytes =
         Inr (0x11 # 0x10 # 0x11 # 0x00 # size_bytes @ gzip_compress L payload_bytes)"
      "length size_bytes = 4"
      "from_bytes_unsigned size_bytes = int (length (gzip_compress L payload_bytes))"
    using full_client_request_frame [OF assms(1)] by blast
  show ?thesis
    using sb assms(2) by (simp add: parse_header_request slice_def)
qed

theorem round_trip_after_length_prefix_witness:
  "\<exists>request h.
     full_client_request sample_lib hello = Inr request
     \<and> parse_header request = Inr h
     \<and> drop 4 (payload h) = hello_gz
     \<and> gzip_decompress sample_lib (drop 4 (payload h)) = Some hello"
proof -
  have a: "length (gzip_compress sample_lib hello) < 2 ^ 32"
    by (simp add: sample_eval)
  have b: "gzip_decompress sample_lib (gzip_compress sample_lib hello) = Some hello"
    by (simp add: sample_eval)
  have c: "gzip_compress sample_lib hello = hello_gz"
    by (simp add: sample_lib_def)
  show ?thesis
    using round_trip_after_length_prefix [OF a b] c by auto
qed

text \<open>
  The claim as stated fails for the payload \<open>hello\<close>: the payload of the parsed frame
  starts with the length bytes \<open>00 00 00 19\<close>, not with the gzip magic, and
  decompressing it raises.
\<close>

theorem round_trip_counterexample:
  "full_client_request sample_lib hello = Inr ([0x11, 0x10, 0x11, 0x00, 0, 0, 0, 25] @ hello_gz)
   \<and> parse_header ([0x11, 0x10, 0x11, 0x00, 0, 0, 0, 25] @ hello_gz) =
       Inr \<lparr>protocol_version = 1, header_size = 1, message_type = 1,
            message_type_specific_flags = 0, serialization_method = 1,
            message_compression = 1, reserved = 0, header_extensions = [],
            payload = [0, 0, 0, 25] @ hello_gz\<rparr>
   \<and> gzip_decompress sample_lib ([0, 0, 0, 25] @ hello_gz) = None
   \<and> gzip_decompress sample_lib ([0, 0, 0, 25] @ hello_gz) \<noteq> Some hello"
  by (simp add: full_client_request_def default_header_def to_bytes_4_big_def Let_def
      parse_header_request sample_eval)

section \<open>Sessions without audio\<close>

lemma silent_step:
  assumes "done_of L res = Inr d" and "audio_of L res = []"
    and "files s = (\<lambda>i. [])" and "yielded s = []"
  shows "\<exists>s'. recv_step L H res s = Inr (s', d) \<and> files s' = (\<lambda>i. []) \<and> yielded s' = []
           \<and> sent s' = sent s \<and> (d \<longrightarrow> seg_list s' \<noteq> [])"
proof -
  obtain lg where step: "recv_step L H res s =
      (let s' = s\<lparr>files := (files s)(idx s := files s (idx s) @ audio_of L res),
                   session_log := lg\<rparr>
       in if d \<or> H < int (length (files s (idx s) @ audio_of L res))
          then (case close_segment L s' of
                  Inl failure \<Rightarrow> Inl failure
                | Inr s'' \<Rightarrow> Inr (s'', d))
          else Inr (s', d))"
    using recv_step_success [OF assms(1)] by blast
  have same: "(\<lambda>i. [])(idx s := []) = (\<lambda>i. [] :: bytes)"
    by auto
  show ?thesis
    using assms(2,3,4) by (simp add: step Let_def close_segment_def same)
qed

lemma recv_loop_silent:
  assumes "\<forall>res \<in> set before. done_of L res = Inr False \<and> \<not> audio_with_sequence res"
    and "done_of L terminal = Inr True" and "audio_of L terminal = []"
    and "files s = (\<lambda>i. [])" and "yielded s = []"
  shows "\<exists>t. recv_loop L H (before @ terminal # rest) s = Inr t \<and> yielded t = []
           \<and> files t = (\<lambda>i. []) \<and> merged t = Some (closed_segments t) \<and> sent t = sent s
           \<and> seg_list t \<noteq> []"
  using assms
proof (induction before arbitrary: s)
  case Nil
  obtain s' where s': "recv_step L H terminal s = Inr (s', True)" "files s' = (\<lambda>i. [])"
      "yielded s' = []" "sent s' = sent s" "seg_list s' \<noteq> []"
    using silent_step [OF Nil(2,3,4,5)] by blast
  have "merge_pcm_list_into_mp3 (map (files s') (seg_list s')) = Inr (map (files s') (seg_list s'))"
    using s'(2,5) by (intro merge_even) simp_all
  then show ?case
    using s' by (simp add: closed_segments_def)
next
  case (Cons res before)
  have a: "audio_of L res = []" and d: "done_of L res = Inr False"
    using Cons.prems(1) by (simp_all add: audio_of_only_with_sequence)
  obtain s' where s': "recv_step L H res s = Inr (s', False)" "files s' = (\<lambda>i. [])"
      "yielded s' = []" "sent s' = sent s"
    using silent_step [OF d a Cons.prems(4,5)] by blast
  have rest': "\<forall>res \<in> set before. done_of L res = Inr False \<and> \<not> audio_with_sequence res"
    using Cons.prems(1) by simp
  show ?case
    using Cons.IH [OF rest' Cons.prems(2,3) s'(2,3)] s'(1,4) by simp
qed

text \<open>
  C9. A session in which every frame before the terminal one returns \<open>False\<close> and is
  not an audio-only frame with nonzero flags, and whose terminal frame carries no audio
  bytes, yields no audio frame to the caller and leaves the loop through the merge call
  and \<open>break\<close> (\<open>Inr\<close>); every segment it recorded is empty. The request is assumed to
  fit the 4-byte length field.
\<close>

theorem zero_audio_session_completes:
  assumes "length (gzip_compress L payload_bytes) < 2 ^ 32"
    and "\<forall>res \<in> set before. done_of L res = Inr False \<and> \<not> audio_with_sequence res"
    and "done_of L terminal = Inr True" and "audio_of L terminal = []"
  shows "\<exists>t. run_tts L H payload_bytes (before @ terminal # rest) = Inr t
           \<and> yielded t = []
           \<and> (\<forall>seg \<in> set (closed_segments t). seg = [])
           \<and> merged t = Some (closed_segments t)"
proof -
  obtain request where req: "full_client_request L payload_bytes = Inr request"
    using full_client_request_frame [OF assms(1)] by blast
  let ?s = "new_session\<lparr>sent := [request]\<rparr>"
  have "files ?s = (\<lambda>i. [])" "yielded ?s = []"
    by (simp_all add: new_session_def)
  then obtain t where t: "recv_loop L H (before @ terminal # rest) ?s = Inr t" "yielded t = []"
      "files t = (\<lambda>i. [])" "merged t = Some (closed_segments t)"
    using recv_loop_silent [OF assms(2,3,4)] by blast
  have "\<forall>seg \<in> set (closed_segments t). seg = []"
    using t(3) by (simp add: closed_segments_def)
  then show ?thesis
    using t req by (simp add: run_tts_def)
qed

theorem zero_audio_session_completes_witness:
  "\<exists>t. run_tts sample_lib 0 hello ([ack_frame, ack_frame] @ empty_last_frame # [audio_frame_1]) = Inr t
       \<and> yielded t = [] \<and> (\<forall>seg \<in> set (closed_segments t). seg = [])
       \<and> merged t = Some (closed_segments t)"
proof -
  have a: "length (gzip_compress sample_lib hello) < 2 ^ 32"
    by (simp add: sample_eval)
  have b: "\<forall>res \<in> set [ack_frame, ack_frame].
             done_of sample_lib res = Inr False \<and> \<not> audio_with_sequence res"
    by (simp add: done_of_def audio_with_sequence_def ack_frame_def frame_eval)
  have c: "done_of sample_lib empty_last_frame = Inr True"
    by (simp add: done_of_def empty_last_frame_def frame_eval)
  have d: "audio_of sample_lib empty_last_frame = []"
    by (simp add: audio_of_def empty_last_frame_def frame_eval)
  show ?thesis
    using zero_audio_session_completes [OF a b c d] by blast
qed

end
